theory Spec2Isabelle
  imports Complex_Main
begin

section \<open>Data model\<close>

text \<open>
  The program is \<^verbatim>\<open>src/tiny_platformer_react_canvas_game.jsx\<close>. Its numbers are
  JavaScript numbers; they are modelled as \<^typ>\<open>real\<close>, so every result below is about
  exact arithmetic: rounding, infinities and NaN are outside the model. The React refs
  (\<^verbatim>\<open>player\<close>, \<^verbatim>\<open>inputRef\<close>, \<^verbatim>\<open>camera\<close>, \<^verbatim>\<open>platforms\<close>, \<^verbatim>\<open>dtRef\<close>,
  \<^verbatim>\<open>lastRef\<close>) are the fields of one state record that every function takes and returns.

  The source's objects all call their fields \<^verbatim>\<open>x\<close>, \<^verbatim>\<open>y\<close>, \<^verbatim>\<open>w\<close>, \<^verbatim>\<open>h\<close>; the
  record fields carry a prefix for the object they belong to (\<open>plat_\<close> for a platform,
  \<open>pl_\<close> for the player, \<open>in_\<close> for the input, \<open>cam_\<close> for the camera, \<open>r_\<close> for the
  object returned by \<^verbatim>\<open>resolveCollisions\<close>).
\<close>

record platform =
  plat_x :: real
  plat_y :: real
  plat_w :: real
  plat_h :: real

record player =
  pl_x :: real
  pl_y :: real
  pl_w :: real
  pl_h :: real
  pl_vx :: real
  pl_vy :: real
  onGround :: bool
  facing :: int

record input =
  in_left :: bool
  in_right :: bool
  in_jump :: bool
  jumpPressed :: bool

record camera =
  cam_x :: real
  cam_y :: real

record resolved =
  r_nx :: real
  r_ny :: real
  r_vx :: real
  r_vy :: real
  r_onGround :: bool

record game =
  player :: player
  inputRef :: input
  camera :: camera
  platforms :: "platform list"
  dtRef :: real
  lastRef :: "real option"

subsection \<open>World constants (lines 15-20)\<close>

definition GRAVITY :: real where "GRAVITY = 2000"
definition MOVE_ACCEL :: real where "MOVE_ACCEL = 3000"
definition MOVE_MAX :: real where "MOVE_MAX = 260"
definition FRICTION :: real where "FRICTION = 1800"
definition JUMP_VEL :: real where "JUMP_VEL = 720"
definition TILE :: real where "TILE = 48"

subsection \<open>Initial values of the refs (lines 11, 23-47, 172-173)\<close>

definition level :: "platform list" where
  "level =
    [\<lparr>plat_x = -400, plat_y = 400, plat_w = 1600, plat_h = TILE\<rparr>,
     \<lparr>plat_x = 200, plat_y = 320, plat_w = TILE * 3, plat_h = TILE / 2\<rparr>,
     \<lparr>plat_x = 520, plat_y = 260, plat_w = TILE * 2, plat_h = TILE / 2\<rparr>,
     \<lparr>plat_x = 760, plat_y = 300, plat_w = TILE * 2, plat_h = TILE / 2\<rparr>,
     \<lparr>plat_x = 1040, plat_y = 240, plat_w = TILE * 3, plat_h = TILE / 2\<rparr>,
     \<lparr>plat_x = 1350, plat_y = 340, plat_w = TILE * 5 / 2, plat_h = TILE / 2\<rparr>]"

definition spawn :: player where
  "spawn = \<lparr>pl_x = 100, pl_y = 200, pl_w = 28, pl_h = 44, pl_vx = 0, pl_vy = 0,
            onGround = False, facing = 1\<rparr>"

definition noInput :: input where
  "noInput = \<lparr>in_left = False, in_right = False, in_jump = False, jumpPressed = False\<rparr>"

definition initial :: game where
  "initial = \<lparr>player = spawn, inputRef = noInput, camera = \<lparr>cam_x = 0, cam_y = 0\<rparr>,
              platforms = level, dtRef = 0, lastRef = None\<rparr>"

datatype button = BLeft | BRight | BJump

section \<open>Input handler\<close>

text \<open>
  \<^verbatim>\<open>onKey\<close> (lines 62-83); \<open>k\<close> is the lower-cased key name the handler computes first.
  \<^verbatim>\<open>preventDefault\<close> has no effect on the state.
\<close>

definition onKey :: "string \<Rightarrow> bool \<Rightarrow> input \<Rightarrow> input" where
  "onKey k down i =
    (let i1 = (if k \<in> set [''arrowleft'', ''a''] then i\<lparr>in_left := down\<rparr> else i);
         i2 = (if k \<in> set [''arrowright'', ''d''] then i1\<lparr>in_right := down\<rparr> else i1)
     in if k \<in> set [''arrowup'', ''w'', '' '']
        then (if down
              then (if \<not> in_jump i2 then i2\<lparr>jumpPressed := True\<rparr> else i2)\<lparr>in_jump := True\<rparr>
              else i2\<lparr>in_jump := False\<rparr>)
        else i2)"

text \<open>\<^verbatim>\<open>setInput\<close> (lines 361-373), the handler of the on-screen buttons.\<close>

definition setInput :: "button \<Rightarrow> bool \<Rightarrow> input \<Rightarrow> input" where
  "setInput key down i =
    (case key of
       BJump \<Rightarrow> (if down
                 then (if \<not> in_jump i then i\<lparr>jumpPressed := True\<rparr> else i)\<lparr>in_jump := True\<rparr>
                 else i\<lparr>in_jump := False\<rparr>)
     | BLeft \<Rightarrow> i\<lparr>in_left := down\<rparr>
     | BRight \<Rightarrow> i\<lparr>in_right := down\<rparr>)"

section \<open>Collision resolution\<close>

text \<open>The broad-phase test of lines 108-110.\<close>

definition nearby :: "real \<Rightarrow> real \<Rightarrow> platform \<Rightarrow> bool" where
  "nearby px py p \<longleftrightarrow>
     \<bar>px - (plat_x p + plat_w p / 2)\<bar> < 400 \<and> \<bar>py - (plat_y p + plat_h p / 2)\<bar> < 400"

text \<open>
  The body of the \<^verbatim>\<open>for\<close> loop (lines 113-165) for one platform \<open>p\<close>: \<open>w\<close> and \<open>h\<close> are
  \<^verbatim>\<open>player.current.w\<close> and \<^verbatim>\<open>player.current.h\<close>, \<open>dt\<close> is \<^verbatim>\<open>dtRef.current\<close>, \<open>px\<close> and \<open>py\<close>
  are the arguments of \<^verbatim>\<open>resolveCollisions\<close>, and \<open>r\<close> holds the loop's variables
  \<^verbatim>\<open>nx\<close>, \<^verbatim>\<open>ny\<close>, \<^verbatim>\<open>vx\<close>, \<^verbatim>\<open>vy\<close>, \<^verbatim>\<open>onGround\<close>.
\<close>

definition resolvePlatform ::
  "real \<Rightarrow> real \<Rightarrow> real \<Rightarrow> real \<Rightarrow> real \<Rightarrow> platform \<Rightarrow> resolved \<Rightarrow> resolved" where
  "resolvePlatform w h dt px py p r =
    (let prevBottom = py + h;
         nextBottom = r_ny r + h + r_vy r * dt;
         r1 = (if r_nx r + w > plat_x p \<and> r_nx r < plat_x p + plat_w p \<and>
                  prevBottom \<le> plat_y p \<and> nextBottom \<ge> plat_y p
               then r\<lparr>r_ny := plat_y p - h, r_vy := 0, r_onGround := True\<rparr> else r);
         prevTop = py;
         nextTop = r_ny r1 + r_vy r1 * dt;
         r2 = (if r_nx r1 + w > plat_x p \<and> r_nx r1 < plat_x p + plat_w p \<and>
                  prevTop \<ge> plat_y p + plat_h p \<and> nextTop \<le> plat_y p + plat_h p
               then r1\<lparr>r_ny := plat_y p + plat_h p, r_vy := 0\<rparr> else r1);
         nextRight = r_nx r2 + w + r_vx r2 * dt;
         nextLeft = r_nx r2 + r_vx r2 * dt;
         r3 = (if py + h > plat_y p \<and> py < plat_y p + plat_h p \<and>
                  px + w \<le> plat_x p \<and> nextRight > plat_x p
               then r2\<lparr>r_nx := plat_x p - w, r_vx := 0\<rparr> else r2);
         r4 = (if py + h > plat_y p \<and> py < plat_y p + plat_h p \<and>
                  px \<ge> plat_x p + plat_w p \<and> nextLeft < plat_x p + plat_w p
               then r3\<lparr>r_nx := plat_x p + plat_w p, r_vx := 0\<rparr> else r3)
     in r4)"

text \<open>The loop over a list of platforms, from the initial values of lines 103-105.\<close>

definition resolveLoop ::
  "real \<Rightarrow> real \<Rightarrow> real \<Rightarrow> platform list \<Rightarrow> real \<Rightarrow> real \<Rightarrow> real \<Rightarrow> real \<Rightarrow> resolved" where
  "resolveLoop w h dt ps px py vx vy =
     fold (resolvePlatform w h dt px py) ps
       \<lparr>r_nx = px, r_ny = py, r_vx = vx, r_vy = vy, r_onGround = False\<rparr>"

text \<open>\<^verbatim>\<open>resolveCollisions\<close> (lines 102-169): the loop over the platforms that pass the filter.\<close>

definition resolveCollisions :: "game \<Rightarrow> real \<Rightarrow> real \<Rightarrow> real \<Rightarrow> real \<Rightarrow> resolved" where
  "resolveCollisions s px py vx vy =
     resolveLoop (pl_w (player s)) (pl_h (player s)) (dtRef s)
       (filter (nearby px py) (platforms s)) px py vx vy"

text \<open>
  The comparison the specification draws: the identical loop run over all platforms, with
  no broad-phase filter. It is not in the source.
\<close>

definition resolveCollisions_exhaustive ::
  "game \<Rightarrow> real \<Rightarrow> real \<Rightarrow> real \<Rightarrow> real \<Rightarrow> resolved" where
  "resolveCollisions_exhaustive s px py vx vy =
     resolveLoop (pl_w (player s)) (pl_h (player s)) (dtRef s) (platforms s) px py vx vy"

section \<open>The tick\<close>

text \<open>
  Lines 202-234 of \<^verbatim>\<open>update\<close>: horizontal control, speed clamp, gravity, jump and the
  consumption of the edge flag (the specification's Integrator, up to the velocities).
\<close>

definition jumpFires :: "game \<Rightarrow> bool" where
  "jumpFires s \<longleftrightarrow> jumpPressed (inputRef s) \<and> onGround (player s)"

definition integrate :: "real \<Rightarrow> game \<Rightarrow> game" where
  "integrate dt s =
    (let p = player s;
         i = inputRef s;
         p1 = (if in_left i \<and> \<not> in_right i
               then p\<lparr>pl_vx := pl_vx p - MOVE_ACCEL * dt, facing := -1\<rparr>
               else if in_right i \<and> \<not> in_left i
               then p\<lparr>pl_vx := pl_vx p + MOVE_ACCEL * dt, facing := 1\<rparr>
               else if onGround p
               then (if pl_vx p > 0 then p\<lparr>pl_vx := max 0 (pl_vx p - FRICTION * dt)\<rparr>
                     else if pl_vx p < 0 then p\<lparr>pl_vx := min 0 (pl_vx p + FRICTION * dt)\<rparr>
                     else p)
               else p\<lparr>pl_vx := pl_vx p * (999 / 1000)\<rparr>);
         p2 = p1\<lparr>pl_vx := max (- MOVE_MAX) (min MOVE_MAX (pl_vx p1))\<rparr>;
         p3 = p2\<lparr>pl_vy := pl_vy p2 + GRAVITY * dt\<rparr>;
         p4 = (if jumpFires (s\<lparr>player := p3\<rparr>)
               then p3\<lparr>pl_vy := - JUMP_VEL, onGround := False\<rparr> else p3)
     in s\<lparr>player := p4, inputRef := i\<lparr>jumpPressed := False\<rparr>\<rparr>)"

text \<open>\<^verbatim>\<open>update\<close> (lines 201-260).\<close>

definition update :: "real \<Rightarrow> game \<Rightarrow> game" where
  "update dt s =
    (let s1 = integrate dt s;
         p = player s1;
         nx = pl_x p + pl_vx p * dt;
         ny = pl_y p + pl_vy p * dt;
         res = resolveCollisions s1 (pl_x p) (pl_y p) (pl_vx p) (pl_vy p);
         p1 = p\<lparr>pl_x := r_nx res, pl_y := r_ny res, pl_vx := r_vx res, pl_vy := r_vy res,
                 onGround := r_onGround res\<rparr>;
         p2 = (if \<not> onGround p1 \<and> \<bar>ny - pl_y p1\<bar> > 1 / 100 then p1\<lparr>pl_y := ny\<rparr> else p1);
         p3 = (if \<bar>nx - pl_x p2\<bar> > 1 / 100 then p2\<lparr>pl_x := nx\<rparr> else p2);
         targetX = pl_x p3 + pl_w p3 / 2 - 320;
         c = camera s1;
         c1 = c\<lparr>cam_x := cam_x c + (targetX - cam_x c) * min 1 (10 * dt), cam_y := 0\<rparr>
     in s1\<lparr>player := p3, camera := c1\<rparr>)"

text \<open>
  One frame of \<^verbatim>\<open>loop\<close> whose clamped time delta is \<open>dt\<close> (lines 185 and 187): the delta is
  stored in \<^verbatim>\<open>dtRef\<close>, where \<^verbatim>\<open>resolveCollisions\<close> reads it, and passed to \<^verbatim>\<open>update\<close>.
\<close>

definition tick :: "real \<Rightarrow> game \<Rightarrow> game" where
  "tick dt s = update dt (s\<lparr>dtRef := dt\<rparr>)"

text \<open>\<^verbatim>\<open>loop\<close> (lines 181-187) at timestamp \<open>t\<close>, without the rendering and the rescheduling.\<close>

definition loop :: "real \<Rightarrow> game \<Rightarrow> game" where
  "loop t s =
    (let last = (case lastRef s of None \<Rightarrow> t | Some l \<Rightarrow> l);
         dt = min (1 / 30) ((t - last) / 1000)
     in tick dt (s\<lparr>lastRef := Some t\<rparr>))"

text \<open>A run of frames with the given time deltas, the first of the list first.\<close>

definition ticks :: "real list \<Rightarrow> game \<Rightarrow> game" where
  "ticks dts s = fold tick dts s"

section \<open>Runs and auxiliary definitions\<close>

text \<open>
  What happens between the creation of the component and some later moment: frames of the
  loop with their time deltas, key events and button events, in the order they occur.
\<close>

datatype event = Frame real | Key string bool | Touch button bool

text \<open>The events that release the jump key or the jump button.\<close>

fun jumpRelease :: "event \<Rightarrow> bool" where
  "jumpRelease (Frame dt) = False"
| "jumpRelease (Key k down) = (k \<in> set [''arrowup'', ''w'', '' ''] \<and> \<not> down)"
| "jumpRelease (Touch b down) = (b = BJump \<and> \<not> down)"

text \<open>
  Some frame of the run takes the jump branch of line 230: the condition holds in the state
  the frame starts from.
\<close>

fun launches :: "event list \<Rightarrow> game \<Rightarrow> bool" where
  "launches [] s = False"
| "launches (Frame dt # es) s = (jumpFires s \<or> launches es (tick dt s))"
| "launches (Key k down # es) s = launches es (s\<lparr>inputRef := onKey k down (inputRef s)\<rparr>)"
| "launches (Touch b down # es) s = launches es (s\<lparr>inputRef := setInput b down (inputRef s)\<rparr>)"

text \<open>
  The value \<^verbatim>\<open>resolveCollisions\<close> returns to \<^verbatim>\<open>update\<close> at line 241, as a function of the
  time delta and the state \<^verbatim>\<open>update\<close> starts from.
\<close>

definition resolution :: "real \<Rightarrow> game \<Rightarrow> resolved" where
  "resolution dt s =
     resolveCollisions (integrate dt s) (pl_x (player s)) (pl_y (player s))
       (pl_vx (player (integrate dt s))) (pl_vy (player (integrate dt s)))"

section \<open>States and predicates the statements use\<close>

text \<open>
  The level's ground platform, and the player standing on it at the spawn column with
  nothing held.
\<close>

definition ground :: platform where
  "ground = \<lparr>plat_x = -400, plat_y = 400, plat_w = 1600, plat_h = TILE\<rparr>"

definition resting :: game where
  "resting = initial\<lparr>player := spawn\<lparr>pl_y := 356, onGround := True\<rparr>\<rparr>"

text \<open>
  Platform \<open>q\<close> of the level supports the player: the player's bottom edge is on its top
  edge, their horizontal extents overlap, and \<open>q\<close> passes the broad-phase filter.
\<close>

definition supports :: "platform \<Rightarrow> game \<Rightarrow> bool" where
  "supports q s \<longleftrightarrow>
     q \<in> set (platforms s) \<and> nearby (pl_x (player s)) (pl_y (player s)) q \<and>
     plat_x q < pl_x (player s) + pl_w (player s) \<and> pl_x (player s) < plat_x q + plat_w q \<and>
     pl_y (player s) + pl_h (player s) = plat_y q"

text \<open>The player is at rest on the ground and no direction or jump edge is pending.\<close>

definition idle :: "game \<Rightarrow> bool" where
  "idle s \<longleftrightarrow>
     pl_vx (player s) = 0 \<and> pl_vy (player s) = 0 \<and> onGround (player s) \<and>
     \<not> in_left (inputRef s) \<and> \<not> in_right (inputRef s) \<and> \<not> jumpPressed (inputRef s)"

text \<open>
  The actor and the single platform of the specification's first scenario; the scenario
  leaves \<^verbatim>\<open>onGround\<close> open, so it is a parameter.
\<close>

definition scenario :: "bool \<Rightarrow> game" where
  "scenario g =
     \<lparr>player = \<lparr>pl_x = 100, pl_y = 352, pl_w = 28, pl_h = 44, pl_vx = 0, pl_vy = 0,
                 onGround = g, facing = 1\<rparr>,
      inputRef = noInput, camera = \<lparr>cam_x = 0, cam_y = 0\<rparr>,
      platforms = [\<lparr>plat_x = 0, plat_y = 400, plat_w = 1600, plat_h = 48\<rparr>],
      dtRef = 0, lastRef = None\<rparr>"

text \<open>
  The camera's target of line 257 for the player of a state, and the camera's \<open>x\<close> after
  \<open>n\<close> frames of the same time delta.
\<close>

definition cameraTarget :: "game \<Rightarrow> real" where
  "cameraTarget s = pl_x (player s) + pl_w (player s) / 2 - 320"

definition cameraAfter :: "nat \<Rightarrow> real \<Rightarrow> game \<Rightarrow> real" where
  "cameraAfter n dt s = cam_x (camera (ticks (replicate n dt) s))"

text \<open>
  The second platform of the level, and the player standing on the ground below it at the
  moment the jump key has just been pressed.
\<close>

definition ledge :: platform where
  "ledge = \<lparr>plat_x = 200, plat_y = 320, plat_w = TILE * 3, plat_h = TILE / 2\<rparr>"

definition underLedge :: game where
  "underLedge = initial\<lparr>player := spawn\<lparr>pl_x := 250, pl_y := 356, onGround := True\<rparr>,
                        inputRef := noInput\<lparr>in_jump := True, jumpPressed := True\<rparr>\<rparr>"

text \<open>The player standing on the level's ground at \<open>x = 900\<close> (the ground spans -400 to 1200).\<close>

definition farRight :: game where
  "farRight = initial\<lparr>player := spawn\<lparr>pl_x := 900, pl_y := 356, onGround := True\<rparr>\<rparr>"

text \<open>
  A block standing on the ground, and the player on the ground moving right at \<open>vx = 200\<close>
  with its right edge (128) ten units left of the block's left face (138); \<open>held\<close> says
  whether the right key is down.
\<close>

definition wall :: platform where
  "wall = \<lparr>plat_x = 138, plat_y = 300, plat_w = 48, plat_h = 100\<rparr>"

definition approach :: "bool \<Rightarrow> game" where
  "approach held = initial\<lparr>player := spawn\<lparr>pl_y := 356, pl_vx := 200, onGround := True\<rparr>,
                          inputRef := noInput\<lparr>in_right := held\<rparr>,
                          platforms := [ground, wall]\<rparr>"

text \<open>The initial state after a press of the space bar: the player is still in the air.\<close>

definition pressedAirborne :: game where
  "pressedAirborne = initial\<lparr>inputRef := onKey '' '' True noInput\<rparr>"

text \<open>
  The player standing at the right end of the level's second platform (which spans \<open>x\<close> from
  200 to 344, top at 320), overlapping it by one unit and sliding right at \<open>vx = 200\<close>.
\<close>

definition sliding :: game where
  "sliding = initial\<lparr>player := spawn\<lparr>pl_x := 343, pl_y := 276, pl_vx := 200, onGround := True\<rparr>\<rparr>"

text \<open>The player in the air, moving down at \<open>vy = 300\<close>, at the height where its feet touch the ground.\<close>

definition touching :: game where
  "touching = initial\<lparr>player := spawn\<lparr>pl_y := 356, pl_vy := 300\<rparr>\<rparr>"

text \<open>
  The player in the air at the spawn point, moving at \<open>vx = 100\<close>, \<open>vy = 300\<close>, with the right
  key held.
\<close>

definition drifting :: game where
  "drifting = initial\<lparr>player := spawn\<lparr>pl_vx := 100, pl_vy := 300\<rparr>,
                      inputRef := noInput\<lparr>in_right := True\<rparr>\<rparr>"

text \<open>The player on the ground at \<open>x = 900\<close> at the moment the space bar has just been pressed.\<close>

definition jumpingFarRight :: game where
  "jumpingFarRight = farRight\<lparr>inputRef := onKey '' '' True noInput\<rparr>"

text \<open>The player in the air at the spawn point, moving down at \<open>vy = 50\<close>, nothing held.\<close>

definition falling :: game where
  "falling = initial\<lparr>player := spawn\<lparr>pl_vy := 50\<rparr>\<rparr>"

section \<open>Vertical collisions\<close>

text \<open>
  The landing test of lines 117-122 and the head-bump test of lines 132-137 for platform \<open>p\<close>,
  on the loop's variables \<open>r\<close>.
\<close>

definition landingTest :: "real \<Rightarrow> real \<Rightarrow> real \<Rightarrow> real \<Rightarrow> platform \<Rightarrow> resolved \<Rightarrow> bool" where
  "landingTest w h dt py p r \<longleftrightarrow>
     r_nx r + w > plat_x p \<and> r_nx r < plat_x p + plat_w p \<and>
     py + h \<le> plat_y p \<and> r_ny r + h + r_vy r * dt \<ge> plat_y p"

definition headTest :: "real \<Rightarrow> real \<Rightarrow> real \<Rightarrow> platform \<Rightarrow> resolved \<Rightarrow> bool" where
  "headTest w dt py p r \<longleftrightarrow>
     r_nx r + w > plat_x p \<and> r_nx r < plat_x p + plat_w p \<and>
     py \<ge> plat_y p + plat_h p \<and> r_ny r + r_vy r * dt \<le> plat_y p + plat_h p"

text \<open>
  A landing or a head bump fires at some platform of the loop. At each platform the landing
  test is made on the loop's variables as the previous platforms left them; the head-bump
  test matters only when the landing test has failed, and then sees the same variables.
\<close>

fun verticalFires ::
  "real \<Rightarrow> real \<Rightarrow> real \<Rightarrow> real \<Rightarrow> real \<Rightarrow> platform list \<Rightarrow> resolved \<Rightarrow> bool" where
  "verticalFires w h dt px py [] r = False"
| "verticalFires w h dt px py (p # ps) r =
     (landingTest w h dt py p r \<or> headTest w dt py p r \<or>
      verticalFires w h dt px py ps (resolvePlatform w h dt px py p r))"

text \<open>
  A landing or a head bump fires in the frame with time delta \<open>dt\<close> that starts from state
  \<open>s\<close>: the loop is the one \<^verbatim>\<open>update\<close> runs at line 241, over the platforms that pass the
  filter, from the integrator's velocities.
\<close>

definition verticalCollision :: "real \<Rightarrow> game \<Rightarrow> bool" where
  "verticalCollision dt s =
    (let s1 = integrate dt (s\<lparr>dtRef := dt\<rparr>); p = player s1
     in verticalFires (pl_w p) (pl_h p) (dtRef s1) (pl_x p) (pl_y p)
          (filter (nearby (pl_x p) (pl_y p)) (platforms s1))
          \<lparr>r_nx = pl_x p, r_ny = pl_y p, r_vx = pl_vx p, r_vy = pl_vy p, r_onGround = False\<rparr>)"

text \<open>
  No platform that passes the filter meets the vertical part of either test with the
  integrator's \<open>vy\<close>: none has its top edge between the player's previous and tentative
  bottom edge, and none has its bottom edge between the tentative and the previous top edge.
\<close>

definition verticallyClear :: "real \<Rightarrow> game \<Rightarrow> bool" where
  "verticallyClear dt s =
    (let p = player (integrate dt s)
     in list_all
          (\<lambda>q. \<not> (pl_y p + pl_h p \<le> plat_y q \<and> plat_y q \<le> pl_y p + pl_h p + pl_vy p * dt) \<and>
               \<not> (plat_y q + plat_h q \<le> pl_y p \<and> pl_y p + pl_vy p * dt \<le> plat_y q + plat_h q))
          (filter (nearby (pl_x p) (pl_y p)) (platforms s)))"

text \<open>
  Platform \<open>q\<close> passes the filter and touches the player from below or from above: their
  horizontal extents overlap and the player's bottom edge is on its top edge, or the
  player's top edge on its bottom edge.
\<close>

definition inContact :: "game \<Rightarrow> platform \<Rightarrow> bool" where
  "inContact s q \<longleftrightarrow>
     nearby (pl_x (player s)) (pl_y (player s)) q \<and>
     plat_x q < pl_x (player s) + pl_w (player s) \<and> pl_x (player s) < plat_x q + plat_w q \<and>
     (pl_y (player s) + pl_h (player s) = plat_y q \<or> pl_y (player s) = plat_y q + plat_h q)"

definition contact :: "game \<Rightarrow> bool" where
  "contact s = list_ex (inContact s) (platforms s)"

section \<open>General facts\<close>

lemmas world_defs = GRAVITY_def MOVE_ACCEL_def MOVE_MAX_def FRICTION_def JUMP_VEL_def TILE_def

lemmas eval_defs = tick_def update_def integrate_def resolveCollisions_def resolveLoop_def
  resolvePlatform_def jumpFires_def nearby_def initial_def spawn_def noInput_def level_def
  world_defs Let_def

lemma fold_invariant:
  "P r \<Longrightarrow> (\<And>q r. P r \<Longrightarrow> P (f q r)) \<Longrightarrow> P (fold f ps r)"
  by (induction ps arbitrary: r) simp_all

lemma integrate_frame [simp]:
  "pl_x (player (integrate dt s)) = pl_x (player s)"
  "pl_y (player (integrate dt s)) = pl_y (player s)"
  "pl_w (player (integrate dt s)) = pl_w (player s)"
  "pl_h (player (integrate dt s)) = pl_h (player s)"
  "platforms (integrate dt s) = platforms s"
  "dtRef (integrate dt s) = dtRef s"
  "camera (integrate dt s) = camera s"
  "lastRef (integrate dt s) = lastRef s"
  "inputRef (integrate dt s) = (inputRef s)\<lparr>jumpPressed := False\<rparr>"
  by (simp_all add: integrate_def Let_def)

lemma integrate_vy:
  "pl_vy (player (integrate dt s)) =
     (if jumpFires s then - JUMP_VEL else pl_vy (player s) + GRAVITY * dt)"
  by (simp add: integrate_def Let_def jumpFires_def)

lemma integrate_onGround:
  "onGround (player (integrate dt s)) = (onGround (player s) \<and> \<not> jumpPressed (inputRef s))"
  by (auto simp add: integrate_def Let_def jumpFires_def)

lemma integrate_dtRef: "player (integrate dt (s\<lparr>dtRef := d\<rparr>)) = player (integrate dt s)"
  by (simp add: integrate_def Let_def jumpFires_def)

lemma update_frame [simp]:
  "pl_w (player (update dt s)) = pl_w (player s)"
  "pl_h (player (update dt s)) = pl_h (player s)"
  "platforms (update dt s) = platforms s"
  "dtRef (update dt s) = dtRef s"
  "lastRef (update dt s) = lastRef s"
  "inputRef (update dt s) = (inputRef s)\<lparr>jumpPressed := False\<rparr>"
  "facing (player (update dt s)) = facing (player (integrate dt s))"
  by (simp_all add: update_def Let_def)

lemma update_vy: "pl_vy (player (update dt s)) = r_vy (resolution dt s)"
  by (simp add: update_def resolution_def Let_def)

lemma update_vx: "pl_vx (player (update dt s)) = r_vx (resolution dt s)"
  by (simp add: update_def resolution_def Let_def)

lemma update_onGround: "onGround (player (update dt s)) = r_onGround (resolution dt s)"
  by (simp add: update_def resolution_def Let_def)

lemma update_y:
  "pl_y (player (update dt s)) =
     (if \<not> r_onGround (resolution dt s) \<and>
         \<bar>pl_y (player s) + pl_vy (player (integrate dt s)) * dt - r_ny (resolution dt s)\<bar> > 1 / 100
      then pl_y (player s) + pl_vy (player (integrate dt s)) * dt
      else r_ny (resolution dt s))"
  by (simp add: update_def resolution_def Let_def)

lemma update_x:
  "pl_x (player (update dt s)) =
     (if \<bar>pl_x (player s) + pl_vx (player (integrate dt s)) * dt - r_nx (resolution dt s)\<bar> > 1 / 100
      then pl_x (player s) + pl_vx (player (integrate dt s)) * dt
      else r_nx (resolution dt s))"
  by (simp add: update_def resolution_def Let_def)

lemma update_camera:
  "cam_x (camera (update dt s)) =
     cam_x (camera s) +
     (pl_x (player (update dt s)) + pl_w (player s) / 2 - 320 - cam_x (camera s)) * min 1 (10 * dt)"
  by (simp add: update_def Let_def)

lemma resolvePlatform_ground_vy:
  "(r_onGround r \<longrightarrow> r_vy r = 0) \<Longrightarrow>
   r_onGround (resolvePlatform w h dt px py p r) \<longrightarrow> r_vy (resolvePlatform w h dt px py p r) = 0"
  by (simp add: resolvePlatform_def Let_def)

lemma resolveLoop_ground_vy:
  "r_onGround (resolveLoop w h dt ps px py vx vy) \<longrightarrow> r_vy (resolveLoop w h dt ps px py vx vy) = 0"
  unfolding resolveLoop_def
  by (rule fold_invariant[where P = "\<lambda>r. r_onGround r \<longrightarrow> r_vy r = 0"])
     (simp_all add: resolvePlatform_ground_vy)

text \<open>
  C10. At the end of every \<^verbatim>\<open>update\<close>, whatever the state, the time delta and the value of
  \<^verbatim>\<open>dtRef\<close>, a player that is on the ground has vertical velocity 0: the loop of
  \<^verbatim>\<open>resolveCollisions\<close> sets \<^verbatim>\<open>onGround\<close> only together with \<^verbatim>\<open>vy = 0\<close>, writes nothing
  but 0 to \<^verbatim>\<open>vy\<close> afterwards, and the rest of \<^verbatim>\<open>update\<close> copies both.
\<close>

theorem C10_ground_implies_rest:
  "onGround (player (update dt s)) \<longrightarrow> pl_vy (player (update dt s)) = 0"
  by (simp add: update_vy update_onGround resolution_def resolveCollisions_def resolveLoop_ground_vy)

theorem C10_witness:
  "onGround (player (update (1 / 60) (resting\<lparr>dtRef := 1 / 60\<rparr>))) \<and>
   pl_vy (player (update (1 / 60) (resting\<lparr>dtRef := 1 / 60\<rparr>))) = 0"
proof -
  have h: "onGround (player (update (1 / 60) (resting\<lparr>dtRef := 1 / 60\<rparr>)))"
    by (simp add: eval_defs resting_def)
  with C10_ground_implies_rest[of "1 / 60" "resting\<lparr>dtRef := 1 / 60\<rparr>"] show ?thesis by blast
qed

lemma resolvePlatform_vy_cases:
  "r_vy r = vy \<or> r_vy r = 0 \<Longrightarrow>
   r_vy (resolvePlatform w h dt px py p r) = vy \<or> r_vy (resolvePlatform w h dt px py p r) = 0"
  by (simp add: resolvePlatform_def Let_def)

lemma resolveLoop_vy_cases:
  "r_vy (resolveLoop w h dt ps px py vx vy) = vy \<or> r_vy (resolveLoop w h dt ps px py vx vy) = 0"
  unfolding resolveLoop_def
  by (rule fold_invariant[where P = "\<lambda>r. r_vy r = vy \<or> r_vy r = 0"])
     (simp_all add: resolvePlatform_vy_cases)

lemma update_vy_cases:
  "pl_vy (player (update dt s)) = pl_vy (player (integrate dt s)) \<or> pl_vy (player (update dt s)) = 0"
  by (simp add: update_vy resolution_def resolveCollisions_def resolveLoop_vy_cases)

section \<open>When a vertical collision fires\<close>

lemma resolvePlatform_vy:
  "r_vy (resolvePlatform w h dt px py p r) =
     (if landingTest w h dt py p r \<or> headTest w dt py p r then 0 else r_vy r)"
  by (auto simp add: resolvePlatform_def landingTest_def headTest_def Let_def)

lemma fold_vy_fires:
  "r_vy (fold (resolvePlatform w h dt px py) ps r) =
     (if verticalFires w h dt px py ps r then 0 else r_vy r)"
proof (induction ps arbitrary: r)
  case Nil
  then show ?case by simp
next
  case (Cons p ps)
  show ?case
    by (simp add: Cons.IH resolvePlatform_vy)
qed

lemma tick_vy_fires:
  "pl_vy (player (tick dt s)) =
     (if verticalCollision dt s then 0 else pl_vy (player (integrate dt s)))"
  by (simp add: tick_def update_vy resolution_def resolveCollisions_def resolveLoop_def
      fold_vy_fires verticalCollision_def Let_def integrate_dtRef)

lemma resolvePlatform_unfired:
  "\<not> landingTest w h dt py p r \<Longrightarrow> \<not> headTest w dt py p r \<Longrightarrow>
   r_ny (resolvePlatform w h dt px py p r) = r_ny r \<and>
   r_vy (resolvePlatform w h dt px py p r) = r_vy r"
  by (auto simp add: resolvePlatform_def landingTest_def headTest_def Let_def)

lemma clear_not_fires:
  "r_ny r = py \<Longrightarrow> r_vy r = vy \<Longrightarrow>
   list_all
     (\<lambda>q. \<not> (py + h \<le> plat_y q \<and> plat_y q \<le> py + h + vy * dt) \<and>
          \<not> (plat_y q + plat_h q \<le> py \<and> py + vy * dt \<le> plat_y q + plat_h q)) ps \<Longrightarrow>
   \<not> verticalFires w h dt px py ps r"
proof (induction ps arbitrary: r)
  case Nil
  then show ?case by simp
next
  case (Cons p ps)
  have t: "\<not> landingTest w h dt py p r" "\<not> headTest w dt py p r"
    using Cons.prems by (auto simp add: landingTest_def headTest_def)
  note u = resolvePlatform_unfired[OF t, of px]
  have "\<not> verticalFires w h dt px py ps (resolvePlatform w h dt px py p r)"
    using Cons.prems u by (intro Cons.IH) simp_all
  with t show ?case by simp
qed

lemma verticallyClear_no_collision:
  "verticallyClear dt s \<Longrightarrow> \<not> verticalCollision dt s"
  unfolding verticalCollision_def verticallyClear_def Let_def
  by (rule clear_not_fires) (simp_all add: integrate_dtRef)

section \<open>A frame with time delta 0\<close>

lemma resolvePlatform_zero_dt:
  "r_nx r = px \<and> r_ny r = py \<and> r_vx r = vx \<Longrightarrow>
   r_nx (resolvePlatform w h 0 px py p r) = px \<and> r_ny (resolvePlatform w h 0 px py p r) = py \<and>
   r_vx (resolvePlatform w h 0 px py p r) = vx"
  by (auto simp add: resolvePlatform_def Let_def)

lemma resolveLoop_zero_dt:
  "r_nx (resolveLoop w h 0 ps px py vx vy) = px \<and> r_ny (resolveLoop w h 0 ps px py vx vy) = py \<and>
   r_vx (resolveLoop w h 0 ps px py vx vy) = vx"
  unfolding resolveLoop_def
  by (rule fold_invariant[where P = "\<lambda>r. r_nx r = px \<and> r_ny r = py \<and> r_vx r = vx"])
     (simp_all add: resolvePlatform_zero_dt)

lemma resolution_zero_dt:
  "dtRef s = 0 \<Longrightarrow> r_nx (resolution dt s) = pl_x (player s) \<and> r_ny (resolution dt s) = pl_y (player s) \<and>
   r_vx (resolution dt s) = pl_vx (player (integrate dt s))"
  using resolveLoop_zero_dt by (simp add: resolution_def resolveCollisions_def)

lemma integrate_vx_zero_dt:
  "(in_left (inputRef s) \<noteq> in_right (inputRef s) \<or> onGround (player s)) \<Longrightarrow> \<bar>pl_vx (player s)\<bar> \<le> MOVE_MAX \<Longrightarrow>
   pl_vx (player (integrate 0 s)) = pl_vx (player s)"
  by (auto simp add: integrate_def Let_def MOVE_MAX_def)

lemma zero_dt_fires:
  "r_nx r = px \<Longrightarrow> r_ny r = py \<Longrightarrow>
   verticalFires w h 0 px py ps r =
     list_ex (\<lambda>q. plat_x q < px + w \<and> px < plat_x q + plat_w q \<and>
                  (py + h = plat_y q \<or> py = plat_y q + plat_h q)) ps"
proof (induction ps arbitrary: r)
  case Nil
  then show ?case by simp
next
  case (Cons p ps)
  have k: "r_nx (resolvePlatform w h 0 px py p r) = px" "r_ny (resolvePlatform w h 0 px py p r) = py"
    using resolvePlatform_zero_dt[of r px py "r_vx r" w h p] Cons.prems by simp_all
  have "(landingTest w h 0 py p r \<or> headTest w 0 py p r) =
        (plat_x p < px + w \<and> px < plat_x p + plat_w p \<and>
         (py + h = plat_y p \<or> py = plat_y p + plat_h p))"
    using Cons.prems by (auto simp add: landingTest_def headTest_def)
  then show ?case
    using Cons.IH[OF k] by auto
qed

lemma zero_dt_collision: "verticalCollision 0 s = contact s"
proof -
  have "verticalCollision 0 s =
        list_ex (\<lambda>q. plat_x q < pl_x (player s) + pl_w (player s) \<and>
                     pl_x (player s) < plat_x q + plat_w q \<and>
                     (pl_y (player s) + pl_h (player s) = plat_y q \<or>
                      pl_y (player s) = plat_y q + plat_h q))
          (filter (nearby (pl_x (player s)) (pl_y (player s))) (platforms s))"
    unfolding verticalCollision_def Let_def
    by (simp add: zero_dt_fires)
  also have "\<dots> = contact s"
    by (auto simp add: contact_def inContact_def list_ex_iff)
  finally show ?thesis .
qed

lemma tick_zero_vy:
  "pl_vy (player (tick 0 s)) =
     (if contact s then 0 else if jumpFires s then - JUMP_VEL else pl_vy (player s))"
  by (simp add: tick_vy_fires zero_dt_collision integrate_vy)


text \<open>
  C5 (amended). A frame with \<open>dt = 0\<close> leaves \<open>x\<close> and \<open>y\<close> unchanged for every pose and input.
  It is not a no-op on the velocity: \<open>vx\<close> becomes what the integrator makes of it (the factor
  0.999 off the ground when no single direction is held, and the clamp to \<open>MOVE_MAX\<close>), so it
  is unchanged when one direction is held or the player is on the ground and
  \<open>\<bar>vx\<bar> \<le> MOVE_MAX\<close>; \<open>vy\<close> is set to 0 exactly when a platform that passes the filter touches
  the player from below or above, and otherwise is unchanged when no jump fires and is
  \<open>- JUMP_VEL\<close> when one does.
\<close>

theorem C5_zero_dt:
  "pl_x (player (tick 0 s)) = pl_x (player s) \<and>
   pl_y (player (tick 0 s)) = pl_y (player s) \<and>
   pl_vx (player (tick 0 s)) = pl_vx (player (integrate 0 s)) \<and>
   ((in_left (inputRef s) \<noteq> in_right (inputRef s) \<or> onGround (player s)) \<and> \<bar>pl_vx (player s)\<bar> \<le> MOVE_MAX
      \<longrightarrow> pl_vx (player (tick 0 s)) = pl_vx (player s)) \<and>
   (\<not> contact s \<and> \<not> jumpFires s \<longrightarrow> pl_vy (player (tick 0 s)) = pl_vy (player s)) \<and>
   (\<not> contact s \<and> jumpFires s \<longrightarrow> pl_vy (player (tick 0 s)) = - JUMP_VEL) \<and>
   (contact s \<longrightarrow> pl_vy (player (tick 0 s)) = 0)"
proof -
  let ?s = "s\<lparr>dtRef := 0\<rparr>"
  have r: "r_nx (resolution 0 ?s) = pl_x (player s)" "r_ny (resolution 0 ?s) = pl_y (player s)"
    "r_vx (resolution 0 ?s) = pl_vx (player (integrate 0 ?s))"
    using resolution_zero_dt[of ?s 0] by simp_all
  have i: "pl_vx (player (integrate 0 ?s)) = pl_vx (player (integrate 0 s))"
    by (simp add: integrate_def Let_def jumpFires_def)
  have x: "pl_x (player (tick 0 s)) = pl_x (player s)"
    by (simp add: tick_def update_x r)
  have y: "pl_y (player (tick 0 s)) = pl_y (player s)"
    by (simp add: tick_def update_y r)
  have vx: "pl_vx (player (tick 0 s)) = pl_vx (player (integrate 0 s))"
    by (simp add: tick_def update_vx r i)
  show ?thesis
    using x y vx integrate_vx_zero_dt[of s] by (simp add: tick_zero_vy)
qed

theorem C5_zero_dt_witness:
  "in_left (inputRef drifting) \<noteq> in_right (inputRef drifting) \<and>
   \<bar>pl_vx (player drifting)\<bar> \<le> MOVE_MAX \<and> \<not> contact drifting \<and> \<not> jumpFires drifting \<and>
   pl_vx (player drifting) = 100 \<and> pl_vy (player drifting) = 300 \<and>
   pl_vx (player (tick 0 drifting)) = pl_vx (player drifting) \<and>
   pl_vy (player (tick 0 drifting)) = pl_vy (player drifting) \<and>
   \<not> contact jumpingFarRight \<and> jumpFires jumpingFarRight \<and>
   pl_vy (player (tick 0 jumpingFarRight)) = - JUMP_VEL \<and>
   contact touching \<and> pl_vy (player touching) = 300 \<and>
   pl_vy (player (tick 0 touching)) = 0"
proof -
  have d: "in_left (inputRef drifting) \<noteq> in_right (inputRef drifting)"
    "\<bar>pl_vx (player drifting)\<bar> \<le> MOVE_MAX" "\<not> contact drifting" "\<not> jumpFires drifting"
    "pl_vx (player drifting) = 100" "pl_vy (player drifting) = 300"
    by (simp_all add: drifting_def contact_def inContact_def nearby_def jumpFires_def
        initial_def spawn_def noInput_def level_def world_defs)
  have j: "\<not> contact jumpingFarRight" "jumpFires jumpingFarRight"
    by (simp_all add: jumpingFarRight_def farRight_def contact_def inContact_def nearby_def
        jumpFires_def onKey_def initial_def spawn_def noInput_def level_def world_defs)
  have t: "contact touching" "pl_vy (player touching) = 300"
    by (simp_all add: touching_def contact_def inContact_def nearby_def
        initial_def spawn_def noInput_def level_def world_defs)
  show ?thesis
    using C5_zero_dt[of drifting] C5_zero_dt[of jumpingFarRight] C5_zero_dt[of touching]
      d j t
    by simp
qed

lemma touching_tick:
  "player (tick 0 touching) =
     \<lparr>pl_x = 100, pl_y = 356, pl_w = 28, pl_h = 44, pl_vx = 0, pl_vy = 0,
       onGround = True, facing = 1\<rparr>"
  by (simp add: eval_defs touching_def)

text \<open>
  C5 as stated fails, for \<open>vx\<close> and for \<open>vy\<close>: the player in the air at the spawn point with
  \<open>vx = 100\<close> and nothing held ends a frame of \<open>dt = 0\<close> with \<open>vx = 99.9\<close>, by the airborne
  damping of line 219; and the player whose feet touch the ground while it moves down at
  \<open>vy = 300\<close> ends a frame of \<open>dt = 0\<close> with \<open>vy = 0\<close>, by the landing branch.
\<close>

theorem C5_zero_dt_counterexample:
  "pl_vx (player (initial\<lparr>player := spawn\<lparr>pl_vx := 100\<rparr>\<rparr>)) = 100 \<and>
   pl_vx (player (tick 0 (initial\<lparr>player := spawn\<lparr>pl_vx := 100\<rparr>\<rparr>))) = 999 / 10 \<and>
   pl_vx (player (tick 0 (initial\<lparr>player := spawn\<lparr>pl_vx := 100\<rparr>\<rparr>))) \<noteq>
     pl_vx (player (initial\<lparr>player := spawn\<lparr>pl_vx := 100\<rparr>\<rparr>)) \<and>
   pl_vy (player touching) = 300 \<and>
   pl_vy (player (tick 0 touching)) = 0 \<and>
   pl_vy (player (tick 0 touching)) \<noteq> pl_vy (player touching)"
  by (simp add: touching_tick) (simp add: eval_defs touching_def)

section \<open>The integrator\<close>

lemma integrate_vx_bound: "\<bar>pl_vx (player (integrate dt s))\<bar> \<le> MOVE_MAX"
  by (simp add: integrate_def Let_def MOVE_MAX_def)

text \<open>
  C7. After the integrator step of any tick, whatever the state the run has reached, the
  inputs held and the time delta, the horizontal speed is at most \<open>MOVE_MAX = 260\<close>.
\<close>

theorem C7_speed_clamp:
  "MOVE_MAX = 260 \<and>
   \<bar>pl_vx (player (integrate dt ((ticks dts s)\<lparr>inputRef := i\<rparr>)))\<bar> \<le> MOVE_MAX"
  using integrate_vx_bound by (simp add: MOVE_MAX_def)


section \<open>The jump edge\<close>

lemma onKey_held:
  "in_jump i \<Longrightarrow> \<not> jumpRelease (Key k down) \<Longrightarrow>
   in_jump (onKey k down i) \<and> jumpPressed (onKey k down i) = jumpPressed i"
  by (auto simp add: onKey_def Let_def)

lemma setInput_held:
  "in_jump i \<Longrightarrow> \<not> jumpRelease (Touch b down) \<Longrightarrow>
   in_jump (setInput b down i) \<and> jumpPressed (setInput b down i) = jumpPressed i"
  by (cases b) (auto simp add: setInput_def)

lemma tick_input: "inputRef (tick dt s) = (inputRef s)\<lparr>jumpPressed := False\<rparr>"
  by (simp add: tick_def)

lemma held_never_launches:
  "in_jump (inputRef s) \<Longrightarrow> \<not> jumpFires s \<Longrightarrow> list_all (\<lambda>e. \<not> jumpRelease e) es \<Longrightarrow>
   \<not> launches es s"
proof (induction es s rule: launches.induct)
  case (1 s)
  then show ?case by simp
next
  case (2 dt es s)
  have "in_jump (inputRef (tick dt s))" "\<not> jumpFires (tick dt s)"
    using "2.prems"(1) by (simp_all add: tick_input jumpFires_def)
  then show ?case using 2 by simp
next
  case (3 k down es s)
  let ?s = "s\<lparr>inputRef := onKey k down (inputRef s)\<rparr>"
  have "in_jump (inputRef ?s)" "\<not> jumpFires ?s"
    using "3.prems" onKey_held[of "inputRef s" k down] by (simp_all add: jumpFires_def)
  then show ?case using 3 by simp
next
  case (4 b down es s)
  let ?s = "s\<lparr>inputRef := setInput b down (inputRef s)\<rparr>"
  have "in_jump (inputRef ?s)" "\<not> jumpFires ?s"
    using "4.prems" setInput_held[of "inputRef s" b down] by (simp_all add: jumpFires_def)
  then show ?case using 4 by simp
qed

text \<open>
  C6. When \<^verbatim>\<open>jumpPressed\<close> and \<^verbatim>\<open>onGround\<close> both hold, the integrator step ends with
  \<open>vy = -720\<close> (whatever gravity added before) and \<^verbatim>\<open>onGround\<close> cleared. The edge flag is
  false after the integrator step and after the frame, whether or not the jump fired. So a
  press made while airborne launches on no later frame: from a state with the jump key held
  and the player off the ground, no frame of a run without a release of the jump key or
  button (further key-down events for the held key included) takes the jump branch.
\<close>

theorem C6_jump_edge:
  "(jumpFires s \<longrightarrow>
      pl_vy (player (integrate dt s)) = - 720 \<and> \<not> onGround (player (integrate dt s))) \<and>
   \<not> jumpPressed (inputRef (integrate dt s)) \<and>
   \<not> jumpPressed (inputRef (tick dt s)) \<and>
   (in_jump (inputRef s) \<and> \<not> onGround (player s) \<and> list_all (\<lambda>e. \<not> jumpRelease e) es \<longrightarrow>
      \<not> launches es s)"
  using held_never_launches[of s es]
  by (simp add: integrate_vy integrate_onGround tick_input jumpFires_def JUMP_VEL_def)

theorem C6_jump_edge_witness:
  "jumpFires underLedge \<and>
   pl_vy (player (integrate (1 / 60) underLedge)) = - 720 \<and>
   \<not> onGround (player (integrate (1 / 60) underLedge)) \<and>
   in_jump (inputRef pressedAirborne) \<and> jumpPressed (inputRef pressedAirborne) \<and>
   \<not> onGround (player pressedAirborne) \<and>
   list_all (\<lambda>e. \<not> jumpRelease e) [Frame (1 / 60), Key '' '' True, Frame (1 / 60)] \<and>
   \<not> launches [Frame (1 / 60), Key '' '' True, Frame (1 / 60)] pressedAirborne"
proof -
  have h: "jumpFires underLedge" "in_jump (inputRef pressedAirborne)"
    "jumpPressed (inputRef pressedAirborne)" "\<not> onGround (player pressedAirborne)"
    "list_all (\<lambda>e. \<not> jumpRelease e) [Frame (1 / 60), Key '' '' True, Frame (1 / 60)]"
    by (simp_all add: underLedge_def pressedAirborne_def initial_def spawn_def noInput_def
        jumpFires_def onKey_def)
  show ?thesis
    using C6_jump_edge[of underLedge "1 / 60"]
      C6_jump_edge[of pressedAirborne _ "[Frame (1 / 60), Key '' '' True, Frame (1 / 60)]"] h
    by blast
qed

section \<open>Gravity\<close>

lemma tick_vy_cases:
  "\<not> jumpPressed (inputRef s) \<Longrightarrow>
   pl_vy (player (tick dt s)) = pl_vy (player s) + GRAVITY * dt \<or> pl_vy (player (tick dt s)) = 0"
  using update_vy_cases[of dt "s\<lparr>dtRef := dt\<rparr>"]
  by (simp add: tick_def integrate_vy jumpFires_def)

lemma tick_free_fall:
  "platforms s = [] \<Longrightarrow> \<not> jumpPressed (inputRef s) \<Longrightarrow>
   pl_vy (player (tick dt s)) = pl_vy (player s) + GRAVITY * dt"
  by (simp add: tick_def update_vy resolution_def resolveCollisions_def resolveLoop_def
      integrate_vy jumpFires_def)

lemma ticks_free_fall:
  "platforms s = [] \<Longrightarrow> \<not> jumpPressed (inputRef s) \<Longrightarrow>
   pl_vy (player (ticks dts s)) = pl_vy (player s) + GRAVITY * sum_list dts"
proof (induction dts arbitrary: s)
  case Nil
  then show ?case by (simp add: ticks_def)
next
  case (Cons dt dts)
  have "platforms (tick dt s) = []" "\<not> jumpPressed (inputRef (tick dt s))"
    using Cons.prems by (simp_all add: tick_def)
  from Cons.IH[OF this] show ?case
    using Cons.prems by (simp add: ticks_def tick_free_fall algebra_simps)
qed

text \<open>
  C8 (amended). With the edge flag clear (so with no input at all) and \<open>dt > 0\<close>, a frame in
  which no landing and no head bump fires adds exactly \<open>GRAVITY * dt\<close> to \<open>vy\<close>, which then
  strictly increases; a frame in which one fires ends with \<open>vy = 0\<close>. None fires, in
  particular, when no platform that passes the filter meets the vertical part of either
  test. Nothing caps \<open>vy\<close>: with no platform to hit, a run of frames adds \<open>GRAVITY\<close> times the
  total time to it.
\<close>

theorem C8_gravity:
  "(\<not> jumpPressed (inputRef s) \<and> 0 < dt \<and> \<not> verticalCollision dt s \<longrightarrow>
      pl_vy (player (tick dt s)) = pl_vy (player s) + GRAVITY * dt \<and>
      pl_vy (player s) < pl_vy (player (tick dt s))) \<and>
   (verticalCollision dt s \<longrightarrow> pl_vy (player (tick dt s)) = 0) \<and>
   (verticallyClear dt s \<longrightarrow> \<not> verticalCollision dt s) \<and>
   (\<not> jumpPressed (inputRef s) \<and> platforms s = [] \<longrightarrow>
      pl_vy (player (ticks dts s)) = pl_vy (player s) + GRAVITY * sum_list dts)"
  using ticks_free_fall[of s dts] verticallyClear_no_collision[of dt s]
  by (auto simp add: tick_vy_fires integrate_vy jumpFires_def GRAVITY_def)

theorem C8_gravity_witness:
  "\<not> jumpPressed (inputRef falling) \<and> 0 < (1 / 60 :: real) \<and>
   verticallyClear (1 / 60) falling \<and> \<not> verticalCollision (1 / 60) falling \<and>
   pl_vy (player falling) = 50 \<and>
   pl_vy (player (tick (1 / 60) falling)) = pl_vy (player falling) + GRAVITY * (1 / 60) \<and>
   pl_vy (player falling) < pl_vy (player (tick (1 / 60) falling)) \<and>
   verticalCollision (1 / 60) resting \<and> pl_vy (player (tick (1 / 60) resting)) = 0 \<and>
   \<not> jumpPressed (inputRef (initial\<lparr>platforms := []\<rparr>)) \<and>
   platforms (initial\<lparr>platforms := []\<rparr>) = [] \<and>
   pl_vy (player (ticks [1 / 60, 1 / 30] (initial\<lparr>platforms := []\<rparr>))) =
     pl_vy (player (initial\<lparr>platforms := []\<rparr>)) + GRAVITY * sum_list [1 / 60, 1 / 30]"
proof -
  have f: "\<not> jumpPressed (inputRef falling)" "0 < (1 / 60 :: real)"
    "verticallyClear (1 / 60) falling" "pl_vy (player falling) = 50"
    by (simp_all add: falling_def verticallyClear_def integrate_def jumpFires_def nearby_def
        initial_def spawn_def noInput_def level_def world_defs Let_def)
  have r: "verticalCollision (1 / 60) resting"
    by (simp add: resting_def verticalCollision_def landingTest_def headTest_def integrate_def
        jumpFires_def nearby_def initial_def spawn_def noInput_def level_def world_defs Let_def)
  have e: "\<not> jumpPressed (inputRef (initial\<lparr>platforms := []\<rparr>))"
    "platforms (initial\<lparr>platforms := []\<rparr>) = []"
    by (simp_all add: initial_def noInput_def)
  show ?thesis
    using C8_gravity[of falling "1 / 60"] C8_gravity[of resting "1 / 60"]
      C8_gravity[of "initial\<lparr>platforms := []\<rparr>" _ "[1 / 60, 1 / 30]"] f r e
    by blast
qed

text \<open>
  C8 as stated fails on a frame with \<open>dt = 0\<close>, which is what \<^verbatim>\<open>loop\<close> computes whenever
  \<^verbatim>\<open>lastRef\<close> is empty (the first frame, and the first frame after a pause): an airborne
  player with no input and \<open>vy = 50\<close> ends that frame with \<open>vy = 50\<close>, neither increased nor
  zeroed.
\<close>

theorem C8_first_frame_counterexample:
  "\<not> onGround (player (initial\<lparr>player := spawn\<lparr>pl_vy := 50\<rparr>\<rparr>)) \<and>
   inputRef (initial\<lparr>player := spawn\<lparr>pl_vy := 50\<rparr>\<rparr>) = noInput \<and>
   pl_vy (player (initial\<lparr>player := spawn\<lparr>pl_vy := 50\<rparr>\<rparr>)) = 50 \<and>
   pl_vy (player (loop 5000 (initial\<lparr>player := spawn\<lparr>pl_vy := 50\<rparr>\<rparr>))) = 50"
  by (simp add: loop_def tick_def update_def integrate_def resolveCollisions_def resolveLoop_def
      resolvePlatform_def jumpFires_def nearby_def initial_def spawn_def noInput_def level_def
      world_defs Let_def)


section \<open>Resting on a platform\<close>

lemma resolvePlatform_rest_pre:
  "r_nx r = px \<and> r_vx r = 0 \<and> py \<le> r_ny r \<and> 0 \<le> r_vy r * dt \<Longrightarrow>
   r_nx (resolvePlatform w h dt px py q r) = px \<and> r_vx (resolvePlatform w h dt px py q r) = 0 \<and>
   py \<le> r_ny (resolvePlatform w h dt px py q r) \<and> 0 \<le> r_vy (resolvePlatform w h dt px py q r) * dt"
  by (auto simp add: resolvePlatform_def Let_def)

lemma resolvePlatform_rest_at:
  "r_nx r = px \<and> r_vx r = 0 \<and> py \<le> r_ny r \<and> 0 \<le> r_vy r * dt \<Longrightarrow>
   plat_x q < px + w \<Longrightarrow> px < plat_x q + plat_w q \<Longrightarrow> py + h = plat_y q \<Longrightarrow>
   resolvePlatform w h dt px py q r =
     \<lparr>r_nx = px, r_ny = py, r_vx = 0, r_vy = 0, r_onGround = True\<rparr>"
  by (auto simp add: resolvePlatform_def Let_def)

lemma resolvePlatform_rest_post:
  "resolvePlatform w h dt px py q \<lparr>r_nx = px, r_ny = py, r_vx = 0, r_vy = 0, r_onGround = True\<rparr> =
     \<lparr>r_nx = px, r_ny = py, r_vx = 0, r_vy = 0, r_onGround = True\<rparr>"
  by (auto simp add: resolvePlatform_def Let_def)

lemma fold_rest_post:
  "fold (resolvePlatform w h dt px py) ps \<lparr>r_nx = px, r_ny = py, r_vx = 0, r_vy = 0, r_onGround = True\<rparr> =
     \<lparr>r_nx = px, r_ny = py, r_vx = 0, r_vy = 0, r_onGround = True\<rparr>"
  by (induction ps) (simp_all add: resolvePlatform_rest_post)

lemma fold_rest:
  "q \<in> set ps \<Longrightarrow> plat_x q < px + w \<Longrightarrow> px < plat_x q + plat_w q \<Longrightarrow> py + h = plat_y q \<Longrightarrow>
   r_nx r = px \<and> r_vx r = 0 \<and> py \<le> r_ny r \<and> 0 \<le> r_vy r * dt \<Longrightarrow>
   fold (resolvePlatform w h dt px py) ps r =
     \<lparr>r_nx = px, r_ny = py, r_vx = 0, r_vy = 0, r_onGround = True\<rparr>"
proof (induction ps arbitrary: r)
  case Nil
  then show ?case by simp
next
  case (Cons a ps)
  show ?case
  proof (cases "a = q")
    case True
    then show ?thesis
      using resolvePlatform_rest_at[OF Cons.prems(5) Cons.prems(2,3,4)] by (simp add: fold_rest_post)
  next
    case False
    then have "q \<in> set ps" using Cons.prems(1) by simp
    from Cons.IH[OF this Cons.prems(2,3,4) resolvePlatform_rest_pre[OF Cons.prems(5)]]
    show ?thesis by simp
  qed
qed

lemma integrate_idle:
  "idle s \<Longrightarrow> player (integrate dt s) = (player s)\<lparr>pl_vy := GRAVITY * dt\<rparr>"
  by (simp add: integrate_def Let_def idle_def jumpFires_def MOVE_MAX_def)

lemma resolution_rest:
  assumes "supports q s" "idle s"
    and "dtRef s = dt"
  shows "resolution dt s =
     \<lparr>r_nx = pl_x (player s), r_ny = pl_y (player s), r_vx = 0, r_vy = 0, r_onGround = True\<rparr>"
proof -
  have q: "q \<in> set (filter (nearby (pl_x (player s)) (pl_y (player s))) (platforms s))"
    using assms(1) by (simp add: supports_def)
  have "fold (resolvePlatform (pl_w (player s)) (pl_h (player s)) (dtRef s)
              (pl_x (player s)) (pl_y (player s)))
          (filter (nearby (pl_x (player s)) (pl_y (player s))) (platforms s))
          \<lparr>r_nx = pl_x (player s), r_ny = pl_y (player s), r_vx = 0,
             r_vy = GRAVITY * dt, r_onGround = False\<rparr> =
        \<lparr>r_nx = pl_x (player s), r_ny = pl_y (player s), r_vx = 0, r_vy = 0, r_onGround = True\<rparr>"
    if "dtRef s = dt"
    using assms(1) that by (intro fold_rest[OF q]) (simp_all add: supports_def GRAVITY_def)
  then show ?thesis
    using assms(2,3) by (simp add: resolution_def resolveCollisions_def resolveLoop_def integrate_idle idle_def)
qed


lemma tick_rest:
  assumes "supports q s" "idle s"
  shows "player (tick dt s) = player s"
proof -
  let ?s = "s\<lparr>dtRef := dt\<rparr>"
  have s: "supports q ?s" "idle ?s" "dtRef ?s = dt"
    using assms by (simp_all add: supports_def idle_def)
  note r = resolution_rest[OF s]
  have i: "player (integrate dt ?s) = (player s)\<lparr>pl_vy := GRAVITY * dt\<rparr>"
    using integrate_idle[OF s(2)] by simp
  have "pl_x (player (tick dt s)) = pl_x (player s)"
    using assms(2) by (simp add: tick_def update_x r i idle_def)
  moreover have "pl_y (player (tick dt s)) = pl_y (player s)"
    by (simp add: tick_def update_y r)
  moreover have "pl_vx (player (tick dt s)) = pl_vx (player s)"
    using assms(2) by (simp add: tick_def update_vx r idle_def)
  moreover have "pl_vy (player (tick dt s)) = pl_vy (player s)"
    using assms(2) by (simp add: tick_def update_vy r idle_def)
  moreover have "onGround (player (tick dt s)) = onGround (player s)"
    using assms(2) by (simp add: tick_def update_onGround r idle_def)
  moreover have "facing (player (tick dt s)) = facing (player s)"
    by (simp add: tick_def i)
  moreover have "pl_w (player (tick dt s)) = pl_w (player s)" "pl_h (player (tick dt s)) = pl_h (player s)"
    by (simp_all add: tick_def)
  ultimately show ?thesis by (intro player.equality) simp_all
qed

lemma ticks_rest:
  "supports q s \<Longrightarrow> idle s \<Longrightarrow> player (ticks dts s) = player s"
proof (induction dts arbitrary: s)
  case Nil
  then show ?case by (simp add: ticks_def)
next
  case (Cons dt dts)
  have p: "player (tick dt s) = player s" using Cons.prems by (rule tick_rest)
  have pf: "platforms (tick dt s) = platforms s" by (simp add: tick_def)
  have 1: "supports q (tick dt s)"
    using Cons.prems(1) unfolding supports_def p pf .
  have 2: "idle (tick dt s)"
    using Cons.prems(2) unfolding idle_def p tick_input by simp
  from Cons.IH[OF 1 2] show ?case by (simp add: ticks_def p)
qed

lemma scenario_tick:
  "player (tick (1 / 60) (scenario True)) =
     \<lparr>pl_x = 100, pl_y = 3173 / 9, pl_w = 28, pl_h = 44, pl_vx = 0, pl_vy = 100 / 3,
       onGround = False, facing = 1\<rparr>"
  "player (tick (1 / 60) (scenario False)) =
     \<lparr>pl_x = 100, pl_y = 3173 / 9, pl_w = 28, pl_h = 44, pl_vx = 0, pl_vy = 100 / 3,
       onGround = False, facing = 1\<rparr>"
  by (simp_all add: eval_defs scenario_def)

lemma sliding_ticks:
  "player (ticks [1 / 60, 1 / 60] sliding) =
     \<lparr>pl_x = 2089 / 6, pl_y = 2489 / 9, pl_w = 28, pl_h = 44, pl_vx = 140, pl_vy = 100 / 3,
       onGround = False, facing = 1\<rparr>"
  by (simp add: ticks_def eval_defs sliding_def)

text \<open>
  C2 as stated fails at its own scenario: the actor at \<open>y = 352\<close> with height 44 has its
  bottom edge at 396, four units above the platform's top at 400, so it is not resting; one
  frame at \<open>dt = 1/60\<close> moves it down by 5/9 with \<open>vy = 100/3\<close> and \<^verbatim>\<open>onGround\<close> false,
  whichever value \<^verbatim>\<open>onGround\<close> had before. The general statement fails for a player that
  rests on a platform with \<open>vx \<noteq> 0\<close>: it slides off the platform's end, and two frames later
  \<open>y\<close> has changed and \<^verbatim>\<open>onGround\<close> is false.
\<close>

theorem C2_counterexample:
  "\<not> (onGround (player (tick (1 / 60) (scenario True))) = True \<and>
      pl_vy (player (tick (1 / 60) (scenario True))) = 0 \<and>
      pl_y (player (tick (1 / 60) (scenario True))) = 356) \<and>
   \<not> (onGround (player (tick (1 / 60) (scenario False))) = True \<and>
      pl_vy (player (tick (1 / 60) (scenario False))) = 0 \<and>
      pl_y (player (tick (1 / 60) (scenario False))) = 356) \<and>
   ledge \<in> set (platforms sliding) \<and>
   pl_y (player sliding) + pl_h (player sliding) = plat_y ledge \<and>
   plat_x ledge < pl_x (player sliding) + pl_w (player sliding) \<and>
   pl_x (player sliding) < plat_x ledge + plat_w ledge \<and>
   pl_vy (player sliding) = 0 \<and> onGround (player sliding) \<and> inputRef sliding = noInput \<and>
   \<not> (pl_y (player (ticks [1 / 60, 1 / 60] sliding)) = pl_y (player sliding) \<and>
      onGround (player (ticks [1 / 60, 1 / 60] sliding)) \<and>
      pl_vy (player (ticks [1 / 60, 1 / 60] sliding)) = 0)"
  by (simp add: scenario_tick sliding_ticks)
     (simp add: sliding_def ledge_def initial_def spawn_def level_def TILE_def)

text \<open>
  C2 (amended). A player resting on the top of a platform that passes the broad-phase filter
  (bottom edge on the platform's top edge, horizontal extents overlapping, \<open>vx = 0\<close>,
  \<open>vy = 0\<close>, \<^verbatim>\<open>onGround\<close> true) with no direction held and no jump edge pending is left
  unchanged by every run of frames, whatever their time deltas and the other platforms: \<open>y\<close>
  does not drift, \<^verbatim>\<open>onGround\<close> stays true and \<open>vy\<close> stays 0. In the scenario, one frame at
  \<open>dt = 1/60\<close> yields \<^verbatim>\<open>onGround\<close> false, \<open>vy = 100/3\<close> and \<open>y = 352 + 5/9\<close>.
\<close>

theorem C2_resting:
  "(supports q s \<and> idle s \<longrightarrow> player (ticks dts s) = player s) \<and>
   player (tick (1 / 60) (scenario True)) =
     \<lparr>pl_x = 100, pl_y = 3173 / 9, pl_w = 28, pl_h = 44, pl_vx = 0, pl_vy = 100 / 3,
       onGround = False, facing = 1\<rparr>"
  using ticks_rest[of q s dts] scenario_tick by simp

lemma resting_supported: "supports ground resting" "idle resting"
  by (simp_all add: supports_def idle_def eval_defs resting_def ground_def)

theorem C2_resting_witness:
  "supports ground resting \<and> idle resting \<and>
   player (ticks [1 / 60, 1 / 30, 0] resting) = player resting"
  using C2_resting[of ground resting "[1 / 60, 1 / 30, 0]"] resting_supported by simp


section \<open>The camera\<close>

lemma ticks_snoc: "ticks (dts @ [dt]) s = tick dt (ticks dts s)"
  by (simp add: ticks_def)

lemma ticks_pl_w: "pl_w (player (ticks dts s)) = pl_w (player s)"
  by (induction dts arbitrary: s) (simp_all add: ticks_def tick_def)

lemma tick_camera:
  "cam_x (camera (tick dt s)) =
     cam_x (camera s) + (cameraTarget (tick dt s) - cam_x (camera s)) * min 1 (10 * dt)"
  by (simp add: tick_def update_camera cameraTarget_def)

lemma cameraAfter_Suc:
  "cameraAfter (Suc n) dt s =
     cameraAfter n dt s +
     (cameraTarget (ticks (replicate (Suc n) dt) s) - cameraAfter n dt s) * min 1 (10 * dt)"
proof -
  have "replicate (Suc n) dt = replicate n dt @ [dt]"
    by (simp add: replicate_append_same)
  then have "ticks (replicate (Suc n) dt) s = tick dt (ticks (replicate n dt) s)"
    by (simp only: ticks_snoc)
  then show ?thesis
    unfolding cameraAfter_def by (simp only: tick_camera)
qed

text \<open>
  C9. With the player's \<open>x\<close> the same after every frame (the actor is stationary) and a fixed
  \<open>dt > 0\<close>, every frame adds \<open>(target - cameraX) * min 1 (10 * dt)\<close> to the camera's \<open>x\<close>,
  which moves toward the target \<open>x + w/2 - 320\<close> monotonically and without overshoot: its distance to the target never grows, and it stays on the side of the
  target it is on. For every \<open>\<epsilon> > 0\<close> there is a number of frames from which on the distance
  is below \<open>\<epsilon>\<close>.
\<close>

theorem C9_camera_converges:
  assumes dt: "0 < dt"
    and still: "\<forall>n. pl_x (player (ticks (replicate n dt) s)) = pl_x (player s)"
  shows "(\<forall>n. cameraAfter (Suc n) dt s =
              cameraAfter n dt s + (cameraTarget s - cameraAfter n dt s) * min 1 (10 * dt) \<and>
            \<bar>cameraAfter (Suc n) dt s - cameraTarget s\<bar> \<le> \<bar>cameraAfter n dt s - cameraTarget s\<bar> \<and>
            (cameraAfter n dt s \<le> cameraTarget s \<longrightarrow>
               cameraAfter n dt s \<le> cameraAfter (Suc n) dt s \<and>
               cameraAfter (Suc n) dt s \<le> cameraTarget s) \<and>
            (cameraTarget s \<le> cameraAfter n dt s \<longrightarrow>
               cameraTarget s \<le> cameraAfter (Suc n) dt s \<and>
               cameraAfter (Suc n) dt s \<le> cameraAfter n dt s)) \<and>
         (\<forall>\<epsilon>>0. \<exists>N. \<forall>n\<ge>N. \<bar>cameraAfter n dt s - cameraTarget s\<bar> < \<epsilon>)"
proof -
  define k where "k = min 1 (10 * dt)"
  define T where "T = cameraTarget s"
  define c where "c n = cameraAfter n dt s" for n
  have k: "0 < k" "k \<le> 1" using dt by (simp_all add: k_def)
  have target: "cameraTarget (ticks (replicate n dt) s) = T" for n
    using still by (simp add: cameraTarget_def T_def ticks_pl_w)
  have step: "c (Suc n) = c n + (T - c n) * k" for n
    unfolding c_def k_def using cameraAfter_Suc[of n dt s] by (simp only: target)
  have err: "c (Suc n) - T = (1 - k) * (c n - T)" for n
    by (simp add: step algebra_simps)
  have pow: "c n - T = (1 - k) ^ n * (c 0 - T)" for n
    by (induction n) (simp_all add: err)
  have mono: "\<bar>c (Suc n) - T\<bar> \<le> \<bar>c n - T\<bar>" for n
  proof -
    have "\<bar>c (Suc n) - T\<bar> = (1 - k) * \<bar>c n - T\<bar>"
      using k by (simp add: err abs_mult)
    also have "\<dots> \<le> \<bar>c n - T\<bar>"
      using k by (intro mult_left_le_one_le) simp_all
    finally show ?thesis .
  qed
  have below: "c n \<le> c (Suc n) \<and> c (Suc n) \<le> T" if "c n \<le> T" for n
  proof
    have "0 \<le> (T - c n) * k" using that k by simp
    then show "c n \<le> c (Suc n)" by (simp add: step)
    have "0 \<le> (1 - k) * (T - c n)" using that k by simp
    then show "c (Suc n) \<le> T" using err[of n] by (simp add: algebra_simps)
  qed
  have above: "T \<le> c (Suc n) \<and> c (Suc n) \<le> c n" if "T \<le> c n" for n
  proof
    have "0 \<le> (1 - k) * (c n - T)" using that k by simp
    then show "T \<le> c (Suc n)" using err[of n] by (simp add: algebra_simps)
    have "0 \<le> (c n - T) * k" using that k by simp
    then show "c (Suc n) \<le> c n" by (simp add: step algebra_simps)
  qed
  have conv: "\<exists>N. \<forall>n\<ge>N. \<bar>c n - T\<bar> < \<epsilon>" if "0 < \<epsilon>" for \<epsilon>
  proof (cases "c 0 = T")
    case True
    then have "\<bar>c n - T\<bar> < \<epsilon>" for n using that by (simp add: pow[of n])
    then show ?thesis by blast
  next
    case False
    then have pos: "0 < \<bar>c 0 - T\<bar>" by simp
    have "1 - k < 1" using k by simp
    moreover have "0 < \<epsilon> / \<bar>c 0 - T\<bar>" using that pos by simp
    ultimately obtain N where N: "(1 - k) ^ N < \<epsilon> / \<bar>c 0 - T\<bar>"
      using real_arch_pow_inv[of "\<epsilon> / \<bar>c 0 - T\<bar>" "1 - k"] by blast
    have "\<bar>c n - T\<bar> < \<epsilon>" if "N \<le> n" for n
    proof -
      have "(1 - k) ^ n \<le> (1 - k) ^ N"
        using that k by (intro power_decreasing) simp_all
      then have "(1 - k) ^ n < \<epsilon> / \<bar>c 0 - T\<bar>" using N by simp
      then have "(1 - k) ^ n * \<bar>c 0 - T\<bar> < \<epsilon>" using pos by (simp add: pos_less_divide_eq)
      moreover have "\<bar>c n - T\<bar> = (1 - k) ^ n * \<bar>c 0 - T\<bar>"
        using k by (simp add: pow[of n] abs_mult)
      ultimately show ?thesis by simp
    qed
    then show ?thesis by blast
  qed
  show ?thesis
    using step mono below above conv unfolding c_def T_def k_def by blast
qed

lemma resting_still: "player (ticks dts resting) = player resting"
  using resting_supported by (rule ticks_rest)

theorem C9_witness:
  "0 < (1 / 60 :: real) \<and>
   (\<forall>n. pl_x (player (ticks (replicate n (1 / 60)) resting)) = pl_x (player resting)) \<and>
   \<bar>cameraAfter (Suc 0) (1 / 60) resting - cameraTarget resting\<bar>
     \<le> \<bar>cameraAfter 0 (1 / 60) resting - cameraTarget resting\<bar> \<and>
   (\<exists>N. \<bar>cameraAfter N (1 / 60) resting - cameraTarget resting\<bar> < 1)"
proof -
  have d: "0 < (1 / 60 :: real)" by simp
  have st: "\<forall>n. pl_x (player (ticks (replicate n (1 / 60)) resting)) = pl_x (player resting)"
    by (simp add: resting_still)
  note c = C9_camera_converges[OF d st]
  from c have "\<exists>N. \<forall>n\<ge>N. \<bar>cameraAfter n (1 / 60) resting - cameraTarget resting\<bar> < 1"
    by simp
  then have "\<exists>N. \<bar>cameraAfter N (1 / 60) resting - cameraTarget resting\<bar> < 1" by blast
  with c d st show ?thesis by blast
qed


section \<open>Approaching a platform from the left\<close>

lemma integrate_vx_200:
  "pl_vx (player s) = 200 \<Longrightarrow>
   150 \<le> pl_vx (player (integrate (1 / 60) s)) \<and> pl_vx (player (integrate (1 / 60) s)) \<le> 250"
  by (auto simp add: integrate_def Let_def world_defs)

lemma overwrite_near:
  "\<bar>(if 1 / 100 < \<bar>a - r\<bar> then a else r) - a\<bar> \<le> 1 / 100" for a r :: real
proof (cases "1 / 100 < \<bar>a - r\<bar>")
  case True
  then show ?thesis by simp
next
  case False
  then have "\<bar>r - a\<bar> \<le> 1 / 100" by linarith
  with False show ?thesis by (simp only: if_False)
qed

lemma tick_x:
  "pl_x (player (tick dt s)) =
     (if 1 / 100 < \<bar>pl_x (player s) + pl_vx (player (integrate dt s)) * dt -
                     r_nx (resolution dt (s\<lparr>dtRef := dt\<rparr>))\<bar>
      then pl_x (player s) + pl_vx (player (integrate dt s)) * dt
      else r_nx (resolution dt (s\<lparr>dtRef := dt\<rparr>)))"
  by (simp add: tick_def update_x integrate_dtRef)

lemma tick_x_near:
  "\<bar>pl_x (player (tick dt s)) - (pl_x (player s) + pl_vx (player (integrate dt s)) * dt)\<bar> \<le> 1 / 100"
  by (simp only: tick_x overwrite_near)

lemma resolvePlatform_no_block:
  "r_nx r = px \<and> r_vx r = vx \<Longrightarrow> px + w + vx * dt \<le> plat_x q \<Longrightarrow> 0 \<le> vx * dt \<Longrightarrow>
   r_nx (resolvePlatform w h dt px py q r) = px \<and> r_vx (resolvePlatform w h dt px py q r) = vx"
  by (auto simp add: resolvePlatform_def Let_def)

lemma resolveLoop_single_no_block:
  assumes "px + w + vx * dt \<le> plat_x q" "0 \<le> vx * dt"
  shows "r_nx (resolveLoop w h dt (filter f [q]) px py vx vy) = px \<and>
         r_vx (resolveLoop w h dt (filter f [q]) px py vx vy) = vx"
  using resolvePlatform_no_block[OF _ assms, of "\<lparr>r_nx = px, r_ny = py, r_vx = vx, r_vy = vy, r_onGround = False\<rparr>"]
  by (simp add: resolveLoop_def)

text \<open>
  C4 (amended). For a player with \<open>vx = 200\<close> whose right edge is exactly 10 units left of a
  platform's left face, a frame at \<open>dt = 1/60\<close> does not reach the platform, since the player
  advances by at most \<open>MOVE_MAX / 60 < 10\<close>: whatever the input and the other platforms, the
  frame ends with the right edge strictly left of the platform's left edge; and when that
  platform is the only one, the left-side block does not fire, \<open>vx\<close> is the integrator's
  velocity (at least 150, not 0) and \<open>x\<close> has advanced by \<open>vx / 60\<close>.
\<close>

theorem C4_ten_units_away:
  "(pl_vx (player s) = 200 \<and> pl_x (player s) + pl_w (player s) = plat_x q - 10 \<longrightarrow>
      pl_x (player (tick (1 / 60) s)) + pl_w (player (tick (1 / 60) s)) < plat_x q) \<and>
   (pl_vx (player s) = 200 \<and> pl_x (player s) + pl_w (player s) = plat_x q - 10 \<and>
    platforms s = [q] \<longrightarrow>
      pl_vx (player (tick (1 / 60) s)) = pl_vx (player (integrate (1 / 60) s)) \<and>
      150 \<le> pl_vx (player (tick (1 / 60) s)) \<and>
      pl_x (player (tick (1 / 60) s)) = pl_x (player s) + pl_vx (player (tick (1 / 60) s)) * (1 / 60))"
proof (intro conjI impI)
  let ?s = "s\<lparr>dtRef := 1 / 60\<rparr>"
  let ?v = "pl_vx (player (integrate (1 / 60) s))"
  have w: "pl_w (player (tick (1 / 60) s)) = pl_w (player s)"
    by (simp add: tick_def)
  {
    assume a: "pl_vx (player s) = 200 \<and> pl_x (player s) + pl_w (player s) = plat_x q - 10"
    have b: "150 \<le> ?v \<and> ?v \<le> 250" using integrate_vx_200[of s] a by simp
    show "pl_x (player (tick (1 / 60) s)) + pl_w (player (tick (1 / 60) s)) < plat_x q"
      using tick_x_near[of "1 / 60" s] a b unfolding w by linarith
  }
  {
    assume a: "pl_vx (player s) = 200 \<and> pl_x (player s) + pl_w (player s) = plat_x q - 10 \<and>
      platforms s = [q]"
    have b: "150 \<le> ?v \<and> ?v \<le> 250" using integrate_vx_200[of s] a by simp
    have "pl_x (player s) + pl_w (player s) + ?v * (1 / 60) \<le> plat_x q" "0 \<le> ?v * (1 / 60)"
      using a b by linarith+
    from resolveLoop_single_no_block[OF this]
    have r: "r_nx (resolution (1 / 60) ?s) = pl_x (player s) \<and> r_vx (resolution (1 / 60) ?s) = ?v"
      using a by (simp add: resolution_def resolveCollisions_def integrate_dtRef)
    show vx: "pl_vx (player (tick (1 / 60) s)) = ?v"
      using r by (simp add: tick_def update_vx)
    show "150 \<le> pl_vx (player (tick (1 / 60) s))"
      using b by (simp only: vx)
    have "1 / 100 < \<bar>pl_x (player s) + ?v * (1 / 60) - pl_x (player s)\<bar>"
      using b by simp
    then show "pl_x (player (tick (1 / 60) s)) = pl_x (player s) + pl_vx (player (tick (1 / 60) s)) * (1 / 60)"
      using r by (simp only: tick_x vx if_True)
  }
qed

theorem C4_ten_units_away_witness:
  "pl_vx (player (approach True)) = 200 \<and>
   pl_x (player (approach True)) + pl_w (player (approach True)) = plat_x wall - 10 \<and>
   platforms (approach True\<lparr>platforms := [wall]\<rparr>) = [wall] \<and>
   pl_x (player (tick (1 / 60) (approach True))) + pl_w (player (tick (1 / 60) (approach True)))
     < plat_x wall \<and>
   150 \<le> pl_vx (player (tick (1 / 60) (approach True\<lparr>platforms := [wall]\<rparr>)))"
proof -
  have h: "pl_vx (player (approach True)) = 200"
    "pl_x (player (approach True)) + pl_w (player (approach True)) = plat_x wall - 10"
    by (simp_all add: approach_def wall_def spawn_def initial_def)
  have h': "pl_vx (player (approach True\<lparr>platforms := [wall]\<rparr>)) = 200"
    "pl_x (player (approach True\<lparr>platforms := [wall]\<rparr>)) + pl_w (player (approach True\<lparr>platforms := [wall]\<rparr>)) = plat_x wall - 10"
    "platforms (approach True\<lparr>platforms := [wall]\<rparr>) = [wall]"
    using h by simp_all
  show ?thesis
    using C4_ten_units_away[of "approach True" wall]
      C4_ten_units_away[of "approach True\<lparr>platforms := [wall]\<rparr>" wall] h h'
    by blast
qed

lemma approach_tick:
  "player (tick (1 / 60) (approach True)) =
     \<lparr>pl_x = 625 / 6, pl_y = 356, pl_w = 28, pl_h = 44, pl_vx = 250, pl_vy = 0,
       onGround = True, facing = 1\<rparr>"
  "player (tick (1 / 60) (approach False)) =
     \<lparr>pl_x = 617 / 6, pl_y = 356, pl_w = 28, pl_h = 44, pl_vx = 170, pl_vy = 0,
       onGround = True, facing = 1\<rparr>"
  by (simp_all add: eval_defs approach_def wall_def ground_def)

text \<open>
  C4 as stated fails: with the right key held or not, the player that starts ten units left
  of the block ends the frame at \<open>x = 625/6\<close> with \<open>vx = 250\<close>, or at \<open>x = 617/6\<close> with
  \<open>vx = 170\<close>, and not at \<open>x = 138 - 28\<close> with \<open>vx = 0\<close>.
\<close>

theorem C4_counterexample:
  "pl_vx (player (approach True)) = 200 \<and> pl_vx (player (approach False)) = 200 \<and>
   pl_x (player (approach True)) + pl_w (player (approach True)) = plat_x wall - 10 \<and>
   pl_x (player (approach False)) + pl_w (player (approach False)) = plat_x wall - 10 \<and>
   plat_y wall < pl_y (player (approach True)) + pl_h (player (approach True)) \<and>
   pl_y (player (approach True)) < plat_y wall + plat_h wall \<and>
   \<not> (pl_x (player (tick (1 / 60) (approach True))) = plat_x wall - pl_w (player (approach True)) \<and>
      pl_vx (player (tick (1 / 60) (approach True))) = 0) \<and>
   \<not> (pl_x (player (tick (1 / 60) (approach False))) = plat_x wall - pl_w (player (approach False)) \<and>
      pl_vx (player (tick (1 / 60) (approach False))) = 0)"
  by (simp add: approach_tick) (simp add: approach_def wall_def spawn_def initial_def)

section \<open>Head bump\<close>

lemma underLedge_tick:
  "player (tick (1 / 30) underLedge) =
     \<lparr>pl_x = 250, pl_y = 332, pl_w = 28, pl_h = 44, pl_vx = 0, pl_vy = 0,
       onGround = False, facing = 1\<rparr>"
  by (simp add: eval_defs underLedge_def)

lemma underLedge_resolution:
  "resolution (1 / 30) (underLedge\<lparr>dtRef := 1 / 30\<rparr>) =
     \<lparr>r_nx = 250, r_ny = 344, r_vx = 0, r_vy = 0, r_onGround = False\<rparr>"
  by (simp add: resolution_def eval_defs underLedge_def)

lemma underLedge_integrate:
  "player (integrate (1 / 30) underLedge) =
     \<lparr>pl_x = 250, pl_y = 356, pl_w = 28, pl_h = 44, pl_vx = 0, pl_vy = -720,
       onGround = False, facing = 1\<rparr>"
  by (simp add: eval_defs underLedge_def)

text \<open>
  C1 fails on the code. The player jumps from the ground under the second platform of the
  level in a frame of \<open>dt = 1/30\<close>: the head-bump condition holds for that platform (previous
  top 356 at or below its bottom edge 344, tentative top 332 at or above it, horizontal
  overlap), no landing fires, and \<^verbatim>\<open>resolveCollisions\<close> returns \<open>ny = 344\<close> with \<open>vy = 0\<close>. The
  frame nevertheless ends with \<open>y = 332\<close>, inside the platform: line 249 takes
  \<^verbatim>\<open>!p.onGround\<close> for "no vertical collision occurred" and overwrites the snapped \<open>y\<close> with
  the integrated one.
\<close>

theorem C1_head_bump_overwritten:
  "ledge \<in> set (platforms underLedge) \<and>
   plat_y ledge + plat_h ledge = 344 \<and>
   pl_y (player underLedge) \<ge> plat_y ledge + plat_h ledge \<and>
   pl_y (player underLedge) + pl_vy (player (integrate (1 / 30) underLedge)) * (1 / 30)
     \<le> plat_y ledge + plat_h ledge \<and>
   plat_x ledge < pl_x (player underLedge) + pl_w (player underLedge) \<and>
   pl_x (player underLedge) < plat_x ledge + plat_w ledge \<and>
   r_ny (resolution (1 / 30) (underLedge\<lparr>dtRef := 1 / 30\<rparr>)) = 344 \<and>
   \<not> r_onGround (resolution (1 / 30) (underLedge\<lparr>dtRef := 1 / 30\<rparr>)) \<and>
   pl_vy (player (tick (1 / 30) underLedge)) = 0 \<and>
   \<not> onGround (player (tick (1 / 30) underLedge)) \<and>
   pl_y (player (tick (1 / 30) underLedge)) = 332"
  by (simp add: underLedge_tick underLedge_resolution underLedge_integrate)
     (simp add: underLedge_def ledge_def initial_def spawn_def level_def TILE_def)

section \<open>The broad-phase filter\<close>

text \<open>
  C3 fails on the code. The filter compares the player's top-left corner with the centre of a
  platform, so it drops the level's own ground, 1600 wide and centred at \<open>x = 400\<close>, as soon as
  the player stands on it at \<open>x \<le> 0\<close> or \<open>x \<ge> 800\<close>. At \<open>x = 900\<close>, \<open>y = 356\<close>, with the
  tentative \<open>vy = 100/3\<close> of a frame at \<open>dt = 1/60\<close>, the filtered loop reports no landing
  while the same loop over all platforms lands the player on the ground; the frame then
  lets the player sink through the ground.
\<close>

theorem C3_filter_drops_ground:
  "ground \<in> set (platforms farRight) \<and>
   resolveCollisions (farRight\<lparr>dtRef := 1 / 60\<rparr>) 900 356 0 (100 / 3) =
     \<lparr>r_nx = 900, r_ny = 356, r_vx = 0, r_vy = 100 / 3, r_onGround = False\<rparr> \<and>
   resolveCollisions_exhaustive (farRight\<lparr>dtRef := 1 / 60\<rparr>) 900 356 0 (100 / 3) =
     \<lparr>r_nx = 900, r_ny = 356, r_vx = 0, r_vy = 0, r_onGround = True\<rparr> \<and>
   player (tick (1 / 60) farRight) =
     \<lparr>pl_x = 900, pl_y = 3209 / 9, pl_w = 28, pl_h = 44, pl_vx = 0, pl_vy = 100 / 3,
       onGround = False, facing = 1\<rparr>"
  by (simp add: eval_defs resolveCollisions_exhaustive_def farRight_def ground_def)


end
